theory Spec2Isabelle
  imports Complex_Main
begin

section \<open>Numbers and arrays\<close>

text \<open>
  A model of \<open>mnist_fid.py\<close>: the Frechet distance of two Gaussians
  (\<open>calculate_frechet_distance\<close>), the collector of network activations
  (\<open>get_activations\<close>), the moment estimation (\<open>calculate_activation_statistics\<close>), the
  two scoring entry points (\<open>data_generator_fid\<close>, \<open>imputer_fid\<close>) and the loading of the
  reference statistics (\<open>MNISTModel.__init__\<close>).
  What the program takes from outside is a parameter of the model: the matrix square root
  of SciPy, the networks, the random noise, the files. Printing is left out.

  The program computes with NumPy arrays of IEEE doubles. A double is modelled as a
  \<open>real option\<close>: \<open>Some x\<close> is the finite value \<open>x\<close>, \<open>None\<close> is a non-finite value
  (\<open>inf\<close>, \<open>-inf\<close> or \<open>nan\<close>), which is what \<open>np.isfinite\<close> tells apart. Addition,
  subtraction and multiplication of a non-finite operand are non-finite, as in IEEE
  arithmetic; rounding and overflow of finite operands are not modelled. The properties
  below are about which branch the program takes, which calls it makes and which
  expression it evaluates, not about rounding.
\<close>

type_synonym fl = "real option"

definition fl_add :: "fl \<Rightarrow> fl \<Rightarrow> fl" where
  "fl_add a b = (case a of None \<Rightarrow> None
                 | Some x \<Rightarrow> (case b of None \<Rightarrow> None | Some y \<Rightarrow> Some (x + y)))"

definition fl_sub :: "fl \<Rightarrow> fl \<Rightarrow> fl" where
  "fl_sub a b = (case a of None \<Rightarrow> None
                 | Some x \<Rightarrow> (case b of None \<Rightarrow> None | Some y \<Rightarrow> Some (x - y)))"

definition fl_mul :: "fl \<Rightarrow> fl \<Rightarrow> fl" where
  "fl_mul a b = (case a of None \<Rightarrow> None
                 | Some x \<Rightarrow> (case b of None \<Rightarrow> None | Some y \<Rightarrow> Some (x * y)))"

definition fl_abs :: "fl \<Rightarrow> fl" where
  "fl_abs a = (case a of None \<Rightarrow> None | Some x \<Rightarrow> Some \<bar>x\<bar>)"

definition fl_max :: "fl \<Rightarrow> fl \<Rightarrow> fl" where
  "fl_max a b = (case a of None \<Rightarrow> None
                 | Some x \<Rightarrow> (case b of None \<Rightarrow> None | Some y \<Rightarrow> Some (max x y)))"

text \<open>Vectors are lists, matrices are lists of rows. Covariance inputs are finite.\<close>

type_synonym vec = "real list"
type_synonym mat = "real list list"
type_synonym flmat = "fl list list"
type_synonym cmat = "(fl \<times> fl) list list"

text \<open>\<open>a.shape\<close> of a two-dimensional array.\<close>

definition shape :: "'a list list \<Rightarrow> nat \<times> nat" where
  "shape m = (length m, case m of [] \<Rightarrow> 0 | r # _ \<Rightarrow> length r)"

text \<open>\<open>a.dot(b)\<close> of two matrices whose inner dimensions agree.\<close>

definition mat_dot :: "mat \<Rightarrow> mat \<Rightarrow> mat" where
  "mat_dot a b =
     map (\<lambda>row. map (\<lambda>j. sum_list (map2 (\<lambda>x brow. x * brow ! j) row b))
                     [0..<snd (shape b)]) a"

text \<open>\<open>np.eye(n)\<close>, \<open>m * c\<close> and \<open>a + b\<close> for equal shapes.\<close>

definition eye :: "nat \<Rightarrow> mat" where
  "eye n = map (\<lambda>i. map (\<lambda>j. if i = j then 1 else 0) [0..<n]) [0..<n]"

definition mat_scale :: "mat \<Rightarrow> real \<Rightarrow> mat" where
  "mat_scale m c = map (map (\<lambda>x. x * c)) m"

definition mat_add :: "mat \<Rightarrow> mat \<Rightarrow> mat" where
  "mat_add a b = map2 (map2 (+)) a b"

text \<open>\<open>np.diagonal(m)\<close> and \<open>np.trace(m)\<close>: the entries \<open>m[i][i]\<close> below both dimensions.\<close>

definition diagonal :: "'a list list \<Rightarrow> 'a list" where
  "diagonal m = map (\<lambda>i. m ! i ! i) [0..<min (fst (shape m)) (snd (shape m))]"

definition trace :: "mat \<Rightarrow> real" where
  "trace m = sum_list (diagonal m)"

definition fl_trace :: "flmat \<Rightarrow> fl" where
  "fl_trace m = foldl fl_add (Some 0) (diagonal m)"

text \<open>\<open>v.dot(w)\<close> of two vectors and \<open>v - w\<close>.\<close>

definition vec_dot :: "vec \<Rightarrow> vec \<Rightarrow> real" where
  "vec_dot v w = sum_list (map2 (*) v w)"

definition vec_sub :: "vec \<Rightarrow> vec \<Rightarrow> vec" where
  "vec_sub v w = map2 (-) v w"

section \<open>The matrix square root\<close>

text \<open>
  \<open>scipy.linalg.sqrtm\<close> is not part of the program: it is a parameter of the model,
  a function from a finite real matrix to its result. The result is an array of real
  dtype or of complex dtype (\<open>np.iscomplexobj\<close>), whose entries may be non-finite.
\<close>

datatype sqrt_result = RealM flmat | ComplexM cmat

text \<open>\<open>np.isfinite(covmean).all()\<close>: a complex entry is finite when both parts are.\<close>

definition isfinite_all :: "sqrt_result \<Rightarrow> bool" where
  "isfinite_all r =
     (case r of
        RealM m \<Rightarrow> list_all (list_all (\<lambda>x. x \<noteq> None)) m
      | ComplexM m \<Rightarrow> list_all (list_all (\<lambda>z. fst z \<noteq> None \<and> snd z \<noteq> None)) m)"

text \<open>
  \<open>np.allclose(xs, 0, atol=atol)\<close>: every entry is finite and \<open>|x - 0| <= atol + rtol * |0|\<close>.
\<close>

definition allclose0 :: "fl list \<Rightarrow> real \<Rightarrow> bool" where
  "allclose0 xs atol = list_all (\<lambda>x. case x of None \<Rightarrow> False | Some y \<Rightarrow> \<bar>y\<bar> \<le> atol) xs"

text \<open>
  \<open>np.max\<close> of a flattened array; a non-finite entry makes the maximum non-finite.
  The program takes it only of an array that has a diagonal entry.
\<close>

fun np_max :: "fl list \<Rightarrow> fl" where
  "np_max [] = None"
| "np_max (x # xs) = foldl fl_max x xs"

definition imag :: "cmat \<Rightarrow> flmat" where
  "imag m = map (map snd) m"

definition realpart :: "cmat \<Rightarrow> flmat" where
  "realpart m = map (map fst) m"

section \<open>The Frechet distance\<close>

text \<open>
  The exceptions the modelled functions raise. \<open>ValueError_Imaginary_component m\<close> is
  \<open>ValueError(f'Imaginary component {m}')\<close>; the other \<open>ValueError\<close>s are NumPy's
  (\<open>dot\<close> of shapes that are not aligned, \<open>reshape(0, -1)\<close>, an assignment whose right side
  does not broadcast to the slice) and the data loader's (a batch size that is not
  positive). \<open>Error_no_features\<close> is the exception of \<open>np.mean(None, axis=0)\<close>.
\<close>

datatype py_error =
    AssertionError string
  | ValueError_shapes_not_aligned
  | ValueError_Imaginary_component fl
  | ValueError_cannot_reshape
  | ValueError_could_not_broadcast
  | ValueError_batch_size
  | Error_no_features
  | FileNotFoundError string
  | KeyError string

text \<open>
  Lines 109 to 119 of \<open>calculate_frechet_distance\<close>: the check of the imaginary part and
  the final expression.
\<close>

definition distance_of_covmean :: "vec \<Rightarrow> mat \<Rightarrow> mat \<Rightarrow> sqrt_result \<Rightarrow> py_error + fl" where
  "distance_of_covmean diff sigma1 sigma2 covmean =
     (case covmean of
        ComplexM c \<Rightarrow>
          if \<not> allclose0 (diagonal (imag c)) (1 / 1000)
          then Inl (ValueError_Imaginary_component (np_max (map fl_abs (concat (imag c)))))
          else Inr (fl_sub (Some (vec_dot diff diff + trace sigma1 + trace sigma2))
                           (fl_mul (Some 2) (fl_trace (realpart c))))
      | RealM c \<Rightarrow>
          Inr (fl_sub (Some (vec_dot diff diff + trace sigma1 + trace sigma2))
                      (fl_mul (Some 2) (fl_trace c))))"

text \<open>
  \<open>calculate_frechet_distance(mu1, sigma1, mu2, sigma2, eps)\<close>. The first component of
  the result lists the arguments of the calls of \<open>sqrtm\<close>, in order; the second is the
  exception raised or the value returned.
\<close>

definition calculate_frechet_distance ::
  "(mat \<Rightarrow> sqrt_result) \<Rightarrow> vec \<Rightarrow> mat \<Rightarrow> vec \<Rightarrow> mat \<Rightarrow> real \<Rightarrow> mat list \<times> (py_error + fl)" where
  "calculate_frechet_distance sqrtm mu1 sigma1 mu2 sigma2 eps =
     (if length mu1 \<noteq> length mu2
      then ([], Inl (AssertionError ''Training and test mean vectors have different lengths''))
      else if shape sigma1 \<noteq> shape sigma2
      then ([], Inl (AssertionError ''Training and test covariances have different dimensions''))
      else
        let diff = vec_sub mu1 mu2 in
        if snd (shape sigma1) \<noteq> fst (shape sigma2)
        then ([], Inl ValueError_shapes_not_aligned)
        else
          let prod0 = mat_dot sigma1 sigma2;
              covmean0 = sqrtm prod0
          in if \<not> isfinite_all covmean0
             then
               let offset = mat_scale (eye (fst (shape sigma1))) eps;
                   prod1 = mat_dot (mat_add sigma1 offset) (mat_add sigma2 offset);
                   covmean1 = sqrtm prod1
               in ([prod0, prod1], distance_of_covmean diff sigma1 sigma2 covmean1)
             else ([prod0], distance_of_covmean diff sigma1 sigma2 covmean0))"

section \<open>The activation collector\<close>

text \<open>
  The result array of \<open>get_activations\<close>: its number of columns and its rows. \<open>np.empty\<close>
  allocates without initialising, so a row that was never written is \<open>None\<close>.
\<close>

type_synonym 'a buffer = "nat \<times> 'a list option list"

definition np_empty :: "nat \<Rightarrow> nat \<Rightarrow> 'a buffer" where
  "np_empty rows cols = (cols, replicate rows None)"

text \<open>
  \<open>pred.reshape(batch_size, -1)\<close> of the features of a batch, one row per image: NumPy cannot
  infer the second dimension when the first is \<open>0\<close>.
\<close>

definition reshape_rows :: "nat \<Rightarrow> 'a list list \<Rightarrow> py_error + 'a list list" where
  "reshape_rows batch_size pred =
     (if batch_size = 0 then Inl ValueError_cannot_reshape else Inr pred)"

text \<open>A row of the right side of an assignment, broadcast to \<open>cols\<close> columns.\<close>

definition broadcast_row :: "nat \<Rightarrow> 'a list \<Rightarrow> 'a list" where
  "broadcast_row cols r = (if length r = cols then r else replicate cols (r ! 0))"

text \<open>
  \<open>arr[start:stop] = batch_feature\<close>. The slice is clipped to the rows of the array. The
  right side must have as many rows as the slice, or one row, and as many columns as the
  array, or one column; NumPy raises otherwise.
\<close>

definition assign_rows :: "'a buffer \<Rightarrow> nat \<Rightarrow> nat \<Rightarrow> 'a list list \<Rightarrow> py_error + 'a buffer" where
  "assign_rows arr start stop batch_feature =
     (let cols = fst arr;
          rows = snd arr;
          lo = min start (length rows);
          hi = max lo (min stop (length rows));
          k = fst (shape batch_feature);
          w = snd (shape batch_feature)
      in if (k = hi - lo \<or> k = 1) \<and> (w = cols \<or> w = 1)
         then Inr (cols,
                   take lo rows
                   @ map (\<lambda>i. Some (broadcast_row cols (batch_feature ! (if k = 1 then 0 else i))))
                         [0..<hi - lo]
                   @ drop hi rows)
         else Inl ValueError_could_not_broadcast)"

text \<open>
  The loop of \<open>get_activations\<close> (lines 43 to 57). \<open>model\<close> is the network, a parameter: it
  maps a batch of images to its features, one row per image. \<open>stop\<close> is the variable
  \<open>end\<close> of the source.
\<close>

fun get_activations_loop ::
  "('img list \<Rightarrow> 'a list list) \<Rightarrow> nat \<Rightarrow> 'img list list \<Rightarrow> nat \<Rightarrow> 'a buffer option
     \<Rightarrow> py_error + 'a buffer option" where
  "get_activations_loop model images [] stop pred_arr = Inr pred_arr"
| "get_activations_loop model images (batch # rest) stop pred_arr =
     (let start = stop;
          batch_size = length batch;
          stop' = start + batch_size
      in case reshape_rows batch_size (model batch) of
           Inl e \<Rightarrow> Inl e
         | Inr batch_feature \<Rightarrow>
             (let arr = (case pred_arr of
                           None \<Rightarrow> np_empty images (snd (shape batch_feature))
                         | Some a \<Rightarrow> a)
              in case assign_rows arr start stop' batch_feature of
                   Inl e \<Rightarrow> Inl e
                 | Inr arr' \<Rightarrow> get_activations_loop model images rest stop' (Some arr')))"

text \<open>
  \<open>get_activations(image_generator, images, model)\<close>: \<open>Inr None\<close> is the Python value
  \<open>None\<close>.
\<close>

definition get_activations ::
  "'img list list \<Rightarrow> nat \<Rightarrow> ('img list \<Rightarrow> 'a list list) \<Rightarrow> py_error + 'a buffer option" where
  "get_activations image_generator images model =
     get_activations_loop model images image_generator 0 None"


section \<open>The scoring entry points\<close>

text \<open>
  \<open>MNISTModel.get_feature(samples)\<close>: the features of the network on the batch, reshaped to
  one row per sample. The network \<open>extract\<close> is a parameter.
\<close>

definition get_feature :: "('img list \<Rightarrow> 'a list list) \<Rightarrow> 'img list \<Rightarrow> py_error + 'a list list" where
  "get_feature extract samples = reshape_rows (length samples) (extract samples)"

text \<open>
  One pass through the body of the \<open>while\<close> loop of \<open>data_generator_fid\<close> (lines 197 to
  210), from the samples of this pass: it returns the new values of \<open>batch_size\<close> and
  \<open>features\<close>, or the exception raised. \<open>features[count:]\<close> is the slice up to the last row.
\<close>

definition generator_step ::
  "('img list \<Rightarrow> 'a list list) \<Rightarrow> 'img list \<Rightarrow> nat \<Rightarrow> nat \<Rightarrow> nat \<Rightarrow> 'a buffer option
     \<Rightarrow> py_error + nat \<times> 'a buffer" where
  "generator_step extract samples n_samples count batch_size features =
     (case get_feature extract samples of
        Inl e \<Rightarrow> Inl e
      | Inr batch_feature \<Rightarrow>
          (let arr = (case features of
                        None \<Rightarrow> np_empty n_samples (snd (shape batch_feature))
                      | Some a \<Rightarrow> a)
           in if count + batch_size > n_samples
              then (let batch_size' = n_samples - count
                    in case assign_rows arr count (length (snd arr))
                              (take batch_size' batch_feature) of
                         Inl e \<Rightarrow> Inl e
                       | Inr arr' \<Rightarrow> Inr (batch_size', arr'))
              else (case assign_rows arr count (count + batch_size) batch_feature of
                      Inl e \<Rightarrow> Inl e
                    | Inr arr' \<Rightarrow> Inr (batch_size, arr'))))"

text \<open>
  The \<open>while\<close> loop of \<open>data_generator_fid\<close>. \<open>noise i\<close> is the content of \<open>data_noise\<close>
  after its \<open>i\<close>-th refill by \<open>normal_()\<close>; \<open>data_generator\<close> is the generator network.
  The loop need not end (a batch size of zero that raised nothing would not advance
  \<open>count\<close>): not returning is the value \<open>None\<close>.
\<close>

partial_function (option) generator_loop ::
  "(nat \<Rightarrow> 'z list) \<Rightarrow> ('z list \<Rightarrow> 'img list) \<Rightarrow> ('img list \<Rightarrow> 'a list list) \<Rightarrow> nat
     \<Rightarrow> nat \<Rightarrow> nat \<Rightarrow> nat \<Rightarrow> 'a buffer option \<Rightarrow> (py_error + 'a buffer option) option" where
  "generator_loop noise data_generator extract n_samples i count batch_size features =
     (if count < n_samples
      then (case generator_step extract (data_generator (noise i)) n_samples count batch_size
                   features of
              Inl e \<Rightarrow> Some (Inl e)
            | Inr r \<Rightarrow>
                generator_loop noise data_generator extract n_samples (Suc i) (count + fst r)
                  (fst r) (Some (snd r)))
      else Some (Inr features))"

declare generator_loop.simps [code]

text \<open>
  \<open>data_generator_fid(data_generator, n_samples, batch_size)\<close>. \<open>fid\<close> is
  \<open>mnist_model.fid\<close>, the score of a feature matrix against the reference statistics, a
  parameter; on \<open>None\<close> it raises.
\<close>

definition data_generator_fid ::
  "('a buffer \<Rightarrow> 'r) \<Rightarrow> (nat \<Rightarrow> 'z list) \<Rightarrow> ('z list \<Rightarrow> 'img list) \<Rightarrow> ('img list \<Rightarrow> 'a list list)
     \<Rightarrow> nat \<Rightarrow> nat \<Rightarrow> (py_error + 'r) option" where
  "data_generator_fid fid noise data_generator extract n_samples batch_size =
     (case generator_loop noise data_generator extract n_samples 0 0 batch_size None of
        None \<Rightarrow> None
      | Some (Inl e) \<Rightarrow> Some (Inl e)
      | Some (Inr None) \<Rightarrow> Some (Inl Error_no_features)
      | Some (Inr (Some features)) \<Rightarrow> Some (Inr (fid features)))"

text \<open>
  \<open>DataLoader(data, batch_size=batch_size, drop_last=True)\<close>: the batches of a sequential
  pass over \<open>data\<close>, without the last one when it is incomplete; \<open>len(data_loader)\<close> is
  their number. The loader refuses a batch size that is not positive.
\<close>

definition data_loader_drop_last :: "nat \<Rightarrow> 's list \<Rightarrow> 's list list" where
  "data_loader_drop_last batch_size data =
     map (\<lambda>k. take batch_size (drop (k * batch_size) data)) [0..<length data div batch_size]"

text \<open>
  The \<open>for\<close> loop of \<open>imputer_fid\<close> (lines 227 to 238). \<open>noise i\<close> is the content of
  \<open>impu_noise\<close> after its \<open>i\<close>-th refill by \<open>uniform_()\<close>; \<open>imputer\<close> maps a batch of
  samples with their masks, and the noise, to the completed images.
\<close>

fun imputer_loop ::
  "(nat \<Rightarrow> 'z list) \<Rightarrow> ('s list \<Rightarrow> 'z list \<Rightarrow> 'img list) \<Rightarrow> ('img list \<Rightarrow> 'a list list) \<Rightarrow> nat
     \<Rightarrow> nat \<Rightarrow> 's list list \<Rightarrow> nat \<Rightarrow> nat \<Rightarrow> 'a buffer option \<Rightarrow> py_error + 'a buffer option" where
  "imputer_loop noise imputer extract n_samples batch_size [] i start features = Inr features"
| "imputer_loop noise imputer extract n_samples batch_size (batch # rest) i start features =
     (let imputed_data = imputer batch (noise i)
      in case get_feature extract imputed_data of
           Inl e \<Rightarrow> Inl e
         | Inr batch_feature \<Rightarrow>
             (let arr = (case features of
                           None \<Rightarrow> np_empty n_samples (snd (shape batch_feature))
                         | Some a \<Rightarrow> a)
              in case assign_rows arr start (start + batch_size) batch_feature of
                   Inl e \<Rightarrow> Inl e
                 | Inr arr' \<Rightarrow>
                     imputer_loop noise imputer extract n_samples batch_size rest (Suc i)
                       (start + batch_size) (Some arr')))"

text \<open>\<open>imputer_fid(imputer, data, batch_size)\<close>.\<close>

definition imputer_fid ::
  "('a buffer \<Rightarrow> 'r) \<Rightarrow> (nat \<Rightarrow> 'z list) \<Rightarrow> ('s list \<Rightarrow> 'z list \<Rightarrow> 'img list)
     \<Rightarrow> ('img list \<Rightarrow> 'a list list) \<Rightarrow> 's list \<Rightarrow> nat \<Rightarrow> py_error + 'r" where
  "imputer_fid fid noise imputer extract data batch_size =
     (if batch_size = 0 then Inl ValueError_batch_size
      else
        let data_loader = data_loader_drop_last batch_size data;
            n_samples = length data_loader * batch_size
        in case imputer_loop noise imputer extract n_samples batch_size data_loader 0 0 None of
             Inl e \<Rightarrow> Inl e
           | Inr None \<Rightarrow> Inl Error_no_features
           | Inr (Some features) \<Rightarrow> Inr (fid features))"

section \<open>The reference statistics\<close>

text \<open>
  The arrays of a statistics file, and the file \<open>mnist_act_0.npz\<close>: an archive of named
  arrays.
\<close>

datatype ndarray = Array1 "real list" | Array2 "real list list"

type_synonym npz = "string \<Rightarrow> ndarray option"

text \<open>
  The statistics part of \<open>MNISTModel.__init__\<close> (lines 154 to 174). \<open>weights_present\<close>
  says whether \<open>mnist.pth\<close> exists; \<open>stats_file\<close> is the content of the statistics file,
  \<open>None\<close> when there is no such file; \<open>reference\<close> is the value of
  \<open>calculate_activation_statistics\<close> on the MNIST training set under the current network.
  The result is \<open>mnist_stats\<close>, the statistics file afterwards, and whether the statistics
  were computed by this call.
\<close>

definition MNISTModel_init ::
  "bool \<Rightarrow> npz option \<Rightarrow> ndarray \<times> ndarray
     \<Rightarrow> py_error + ((ndarray \<times> ndarray) \<times> npz option \<times> bool)" where
  "MNISTModel_init weights_present stats_file reference =
     (if \<not> weights_present then Inl (FileNotFoundError ''mnist.pth'')
      else case stats_file of
             Some f \<Rightarrow>
               (case f ''mu'' of
                  None \<Rightarrow> Inl (KeyError ''mu'')
                | Some m_mnist \<Rightarrow>
                    (case f ''sigma'' of
                       None \<Rightarrow> Inl (KeyError ''sigma'')
                     | Some s_mnist \<Rightarrow> Inr ((m_mnist, s_mnist), Some f, False)))
           | None \<Rightarrow>
               (let m_mnist = fst reference;
                    s_mnist = snd reference
                in Inr ((m_mnist, s_mnist),
                        Some (Map.empty(''mu'' \<mapsto> m_mnist, ''sigma'' \<mapsto> s_mnist)), True)))"


section \<open>The moment estimation\<close>








section \<open>Definitions used to state the properties of the distance\<close>

text \<open>An \<open>n\<close> by \<open>n\<close> array: \<open>n\<close> rows of length \<open>n\<close>.\<close>

definition is_square :: "nat \<Rightarrow> 'a list list \<Rightarrow> bool" where
  "is_square n m = (length m = n \<and> (\<forall>r\<in>set m. length r = n))"

text \<open>The matrix \<open>m + eps * I\<close>, entry by entry.\<close>

definition plus_eps_identity :: "nat \<Rightarrow> real \<Rightarrow> mat \<Rightarrow> mat" where
  "plus_eps_identity n eps m =
     map (\<lambda>i. map (\<lambda>j. m ! i ! j + (if i = j then eps else 0)) [0..<n]) [0..<n]"

text \<open>
  The transpose of a matrix, and of the result of the square root. A covariance matrix
  is symmetric: square and equal to its transpose.
\<close>

definition mat_transpose :: "'a list list \<Rightarrow> 'a list list" where
  "mat_transpose m = map (\<lambda>j. map (\<lambda>i. m ! i ! j) [0..<fst (shape m)]) [0..<snd (shape m)]"

definition result_transpose :: "sqrt_result \<Rightarrow> sqrt_result" where
  "result_transpose r =
     (case r of RealM c \<Rightarrow> RealM (mat_transpose c) | ComplexM c \<Rightarrow> ComplexM (mat_transpose c))"




section \<open>Square root routines for the concrete evaluations\<close>

text \<open>
  Two routines of one value each: the first returns a non-finite entry on the product
  \<open>[[0]]\<close> and \<open>10^-6\<close> elsewhere, the second returns the identity of size two.
\<close>

definition sqrtm_nan_on_zero :: "mat \<Rightarrow> sqrt_result" where
  "sqrtm_nan_on_zero m = (if m = [[0]] then RealM [[None]] else RealM [[Some (1 / 1000000)]])"

definition sqrtm_identity2 :: "mat \<Rightarrow> sqrt_result" where
  "sqrtm_identity2 m = RealM [[Some 1, Some 0], [Some 0, Some 1]]"

text \<open>
  SciPy's algorithm on a triangular matrix of size two. \<open>sqrtm\<close> brings its argument to
  upper triangular (Schur) form, which an upper triangular matrix \<open>[[a, b], [0, d]]\<close>
  already has. The diagonal of the root holds the square roots of \<open>a\<close> and \<open>d\<close>, complex
  as soon as one of them is negative. The entry above the diagonal is \<open>b\<close> divided by the
  sum of the two; when that sum is zero the entry is \<open>0\<close> if \<open>b\<close> is \<open>0\<close>, and otherwise the
  matrix has no square root: SciPy reports the failure and returns a real array filled
  with \<open>nan\<close>.
\<close>

definition complex_sqrt :: "real \<Rightarrow> real \<times> real" where
  "complex_sqrt x = (if 0 \<le> x then (sqrt x, 0) else (0, sqrt (- x)))"

definition finite_entry :: "real \<times> real \<Rightarrow> fl \<times> fl" where
  "finite_entry z = (Some (fst z), Some (snd z))"

definition sqrtm_upper2 :: "real \<Rightarrow> real \<Rightarrow> real \<Rightarrow> sqrt_result" where
  "sqrtm_upper2 a b d =
     (if 0 \<le> a \<and> 0 \<le> d
      then if sqrt a + sqrt d \<noteq> 0
           then RealM [[Some (sqrt a), Some (b / (sqrt a + sqrt d))], [Some 0, Some (sqrt d)]]
           else if b = 0
           then RealM [[Some 0, Some 0], [Some 0, Some 0]]
           else RealM [[None, None], [None, None]]
      else let ra = complex_sqrt a;
               rd = complex_sqrt d;
               x = fst ra + fst rd;
               y = snd ra + snd rd
           in ComplexM [[finite_entry ra, finite_entry (b * x / (x\<^sup>2 + y\<^sup>2), - (b * y) / (x\<^sup>2 + y\<^sup>2))],
                        [finite_entry (0, 0), finite_entry rd]])"

text \<open>
  The routine on a matrix of size two: an upper triangular matrix as above, a lower
  triangular matrix through its transpose. The evaluations below use it on triangular
  matrices only; on any other argument it returns an array of non-finite entries.
\<close>

fun sqrtm_triangular2 :: "mat \<Rightarrow> sqrt_result" where
  "sqrtm_triangular2 [[a, b], [c, d]] =
     (if c = 0 then sqrtm_upper2 a b d
      else if b = 0 then result_transpose (sqrtm_upper2 a c d)
      else RealM [[None, None], [None, None]])"
| "sqrtm_triangular2 m = RealM (map (map (\<lambda>x. None)) m)"

section \<open>Definitions used to state the properties of the collector\<close>

text \<open>
  A sequence of batches the collector is meant for: it is not empty, no batch is empty,
  the batch sizes sum to \<open>total_count\<close>, and on each batch the network returns the feature
  vector \<open>f x\<close> of each image \<open>x\<close>, of length \<open>D\<close>.
\<close>

definition well_chunked ::
  "('img list \<Rightarrow> 'a list list) \<Rightarrow> ('img \<Rightarrow> 'a list) \<Rightarrow> nat \<Rightarrow> nat \<Rightarrow> 'img list list \<Rightarrow> bool" where
  "well_chunked model f D total_count bs \<longleftrightarrow>
     bs \<noteq> [] \<and> sum_list (map length bs) = total_count \<and>
     (\<forall>b\<in>set bs. b \<noteq> [] \<and> model b = map f b \<and> (\<forall>x\<in>set b. length (f x) = D))"

text \<open>A network for the concrete evaluations: the features of the image \<open>x\<close> are \<open>[x, 2x]\<close>.\<close>

definition feature_pair :: "real list \<Rightarrow> real list list" where
  "feature_pair batch = map (\<lambda>x. [x, 2 * x]) batch"

section \<open>Definitions used to state the properties of the scoring entry points\<close>

text \<open>
  The feature rows of the \<open>i\<close>-th pass of the generator loop, for a network that computes
  the features \<open>f x\<close> of each image \<open>x\<close>.
\<close>

definition generated_rows ::
  "(nat \<Rightarrow> 'z list) \<Rightarrow> ('z list \<Rightarrow> 'img list) \<Rightarrow> ('img \<Rightarrow> 'a list) \<Rightarrow> nat \<Rightarrow> 'a list list" where
  "generated_rows noise data_generator f i = map f (data_generator (noise i))"

text \<open>
  What the generator path relies on: the noise tensor has \<open>batch_size\<close> entries, the
  generator returns one image per noise vector, and the network returns the feature vector
  \<open>f x\<close>, of length \<open>D\<close>, of each image \<open>x\<close>.
\<close>

definition generator_setting ::
  "(nat \<Rightarrow> 'z list) \<Rightarrow> ('z list \<Rightarrow> 'img list) \<Rightarrow> ('img list \<Rightarrow> 'a list list) \<Rightarrow> ('img \<Rightarrow> 'a list)
     \<Rightarrow> nat \<Rightarrow> nat \<Rightarrow> bool" where
  "generator_setting noise data_generator extract f D batch_size \<longleftrightarrow>
     (\<forall>i. length (noise i) = batch_size) \<and>
     (\<forall>z. length (data_generator z) = length z) \<and>
     (\<forall>s. extract s = map f s) \<and>
     (\<forall>x. length (f x) = D)"

text \<open>The same for the imputation path: the imputer returns one image per sample.\<close>

definition imputer_setting ::
  "('s list \<Rightarrow> 'z list \<Rightarrow> 'img list) \<Rightarrow> ('img list \<Rightarrow> 'a list list) \<Rightarrow> ('img \<Rightarrow> 'a list) \<Rightarrow> nat \<Rightarrow> bool" where
  "imputer_setting imputer extract f D \<longleftrightarrow>
     (\<forall>b z. length (imputer b z) = length b) \<and>
     (\<forall>s. extract s = map f s) \<and>
     (\<forall>x. length (f x) = D)"

text \<open>The feature rows of the \<open>i\<close>-th batch of the data loader.\<close>

definition imputed_rows ::
  "(nat \<Rightarrow> 'z list) \<Rightarrow> ('s list \<Rightarrow> 'z list \<Rightarrow> 'img list) \<Rightarrow> ('img \<Rightarrow> 'a list) \<Rightarrow> nat \<Rightarrow> 's list
     \<Rightarrow> nat \<Rightarrow> 'a list list" where
  "imputed_rows noise imputer f batch_size data i =
     map f (imputer (take batch_size (drop (i * batch_size) data)) (noise i))"

text \<open>
  Components for the concrete evaluations: a score that returns the matrix it is computed
  from, the noise \<open>[2i, 2i + 1]\<close> at the \<open>i\<close>-th refill, a generator and an imputer that
  return their input, a statistics file of dimension one and reference statistics of
  dimension two.
\<close>

definition observe_features :: "real buffer \<Rightarrow> real buffer" where
  "observe_features features = features"

definition counting_noise :: "nat \<Rightarrow> real list" where
  "counting_noise i = [real (2 * i), real (2 * i + 1)]"

definition generator_keep :: "real list \<Rightarrow> real list" where
  "generator_keep z = z"

definition imputer_keep :: "real list \<Rightarrow> real list \<Rightarrow> real list" where
  "imputer_keep batch z = batch"

definition stale_stats_file :: npz where
  "stale_stats_file = Map.empty(''mu'' \<mapsto> Array1 [0], ''sigma'' \<mapsto> Array2 [[1]])"

definition current_reference :: "ndarray \<times> ndarray" where
  "current_reference = (Array1 [0, 0], Array2 [[1, 0], [0, 1]])"

section \<open>Lemmas about the distance\<close>

lemma shape_square: "is_square n m \<Longrightarrow> shape m = (n, n)"
  by (cases m) (auto simp: is_square_def shape_def)

lemma diagonal_square: "is_square n m \<Longrightarrow> diagonal m = map (\<lambda>i. m ! i ! i) [0..<n]"
  by (simp add: diagonal_def shape_square)

lemma is_square_map: "is_square n m \<Longrightarrow> is_square n (map (map f) m)"
  by (auto simp: is_square_def)

lemma diagonal_map_square:
  "is_square n m \<Longrightarrow> diagonal (map (map f) m) = map (\<lambda>i. f (m ! i ! i)) [0..<n]"
  by (simp add: diagonal_square [OF is_square_map]) (simp add: is_square_def)

lemma fl_add_Some: "fl_add (Some x) (Some y) = Some (x + y)"
  by (simp add: fl_add_def)

lemma foldl_fl_add_Some:
  "foldl fl_add (Some a) (map (\<lambda>i. Some (f i)) xs) = Some (a + sum_list (map f xs))"
  by (induction xs arbitrary: a) (simp_all add: fl_add_Some add.assoc)

lemma sum_list_upt_sum: "sum_list (map f [0..<n]) = (\<Sum>i<n. f i)"
  by (simp add: interv_sum_list_conv_sum_set_nat atLeast0LessThan)

lemma trace_square: "is_square n m \<Longrightarrow> trace m = (\<Sum>i<n. m ! i ! i)"
  by (simp add: trace_def diagonal_square sum_list_upt_sum)

lemma vec_dot_diff:
  assumes "length v = length w"
  shows "vec_dot (vec_sub v w) (vec_sub v w) = (\<Sum>i<length v. (v ! i - w ! i)\<^sup>2)"
proof -
  have "map2 (*) (map2 (-) v w) (map2 (-) v w) = map (\<lambda>i. (v ! i - w ! i)\<^sup>2) [0..<length v]"
    using assms by (auto intro!: nth_equalityI simp: power2_eq_square)
  then show ?thesis by (simp add: vec_dot_def vec_sub_def sum_list_upt_sum)
qed

lemma fl_trace_finite:
  assumes "is_square n c"
  shows "fl_trace (map (map Some) c) = Some (\<Sum>i<n. c ! i ! i)"
proof -
  have "diagonal (map (map Some) c) = map (\<lambda>i. Some (c ! i ! i)) [0..<n]"
    using assms by (simp add: diagonal_map_square)
  then show ?thesis by (simp only: fl_trace_def foldl_fl_add_Some sum_list_upt_sum) simp
qed

lemma regularised_eq:
  assumes "is_square n m"
  shows "mat_add m (mat_scale (eye n) eps) = plus_eps_identity n eps m"
  unfolding plus_eps_identity_def
proof (rule nth_equalityI)
  show "length (mat_add m (mat_scale (eye n) eps)) = length (map (\<lambda>i. map (\<lambda>j. m ! i ! j + (if i = j then eps else 0)) [0..<n]) [0..<n])"
    using assms by (simp add: mat_add_def mat_scale_def eye_def is_square_def)
next
  fix i assume "i < length (mat_add m (mat_scale (eye n) eps))"
  then have i: "i < n" using assms by (simp add: mat_add_def mat_scale_def eye_def is_square_def)
  then have len: "length (m ! i) = n" using assms by (simp add: is_square_def)
  show "mat_add m (mat_scale (eye n) eps) ! i = map (\<lambda>i. map (\<lambda>j. m ! i ! j + (if i = j then eps else 0)) [0..<n]) [0..<n] ! i"
    using i len assms
    by (auto simp: mat_add_def mat_scale_def eye_def is_square_def intro!: nth_equalityI)
qed

lemma cfd_unfold:
  assumes "length mu1 = length mu2" and "is_square n sigma1" and "is_square n sigma2"
  shows "calculate_frechet_distance sqrtm mu1 sigma1 mu2 sigma2 eps =
           (if isfinite_all (sqrtm (mat_dot sigma1 sigma2))
            then ([mat_dot sigma1 sigma2],
                  distance_of_covmean (vec_sub mu1 mu2) sigma1 sigma2 (sqrtm (mat_dot sigma1 sigma2)))
            else ([mat_dot sigma1 sigma2,
                   mat_dot (plus_eps_identity n eps sigma1) (plus_eps_identity n eps sigma2)],
                  distance_of_covmean (vec_sub mu1 mu2) sigma1 sigma2
                    (sqrtm (mat_dot (plus_eps_identity n eps sigma1) (plus_eps_identity n eps sigma2)))))"
  using assms
  by (simp add: calculate_frechet_distance_def Let_def shape_square regularised_eq)






lemma fl_simps:
  "fl_sub (Some x) (Some y) = Some (x - y)" "fl_mul (Some x) (Some y) = Some (x * y)"
  "fl_sub a None = None" "fl_mul a None = None" "fl_add a None = None" "fl_add None b = None"
  by (simp_all add: fl_sub_def fl_mul_def fl_add_def split: option.splits)

lemma foldl_fl_add_None: "foldl fl_add None xs = None"
  by (induction xs) (simp_all add: fl_simps)

lemma foldl_fl_add_mem_None: "None \<in> set xs \<Longrightarrow> foldl fl_add a xs = None"
  by (induction xs arbitrary: a) (auto simp: fl_simps foldl_fl_add_None)

lemma fl_trace_nonfinite:
  assumes "is_square n c" and "i < n" and "c ! i ! i = None"
  shows "fl_trace c = None"
proof -
  have "None \<in> set (diagonal c)"
    using assms by (auto simp: diagonal_square image_iff intro!: bexI [of _ i])
  then show ?thesis by (simp add: fl_trace_def foldl_fl_add_mem_None)
qed

lemma is_square_1: "is_square (Suc 0) [[x]]"
  by (simp add: is_square_def)

lemma is_square_2: "is_square 2 [[a, b], [c, d]]"
  by (simp add: is_square_def)

lemma upt_2: "[0..<2] = [0, 1]"
  by (simp add: upt_rec)

section \<open>Lemmas about matrices of size two and the square root routines\<close>

lemma sqrt_vals:
  "sqrt (1 / 250000000000) = 1 / 500000" "sqrt (1 / 100000000) = 1 / 10000"
  by (rule real_sqrt_unique; simp add: power2_eq_square)+

lemma eval_dot2:
  "mat_dot [[a, b], [c, d]] [[e, f], [g, h]] =
     [[a * e + b * g, a * f + b * h], [c * e + d * g, c * f + d * h]]"
  by (simp add: mat_dot_def shape_def upt_2)



lemma eval_plus_eps2:
  "plus_eps_identity 2 eps [[a, b], [c, d]] = [[a + eps, b], [c, d + eps]]"
  by (simp add: plus_eps_identity_def upt_2)




section \<open>Lemmas about a complex square root with finite entries\<close>







section \<open>Lemmas about transposition\<close>

































section \<open>Lemmas about uniform weights\<close>












section \<open>Lemmas about the collector\<close>

lemma shape_map_rows:
  assumes "b \<noteq> []" and "\<forall>x\<in>set b. length (f x) = D"
  shows "shape (map f b) = (length b, D)"
  using assms by (cases b) (simp_all add: shape_def)

lemma assign_rows_in_range:
  assumes "length pre + length b + k = total_count" and "b \<noteq> []" and "\<forall>x\<in>set b. length (f x) = D"
  shows "assign_rows (D, map Some pre @ replicate (length b + k) None) (length pre)
           (length pre + length b) (map f b) =
         Inr (D, map Some (pre @ map f b) @ replicate k None)"
proof -
  have rows: "map (\<lambda>i. Some (broadcast_row D (map f b ! (if length b = 1 then 0 else i))))
                  [0..<length b] = map Some (map f b)"
    using assms(3) by (auto intro!: nth_equalityI simp: broadcast_row_def)
  show ?thesis
    using assms(2) rows
    by (simp add: assign_rows_def shape_map_rows [OF assms(2,3)] Let_def replicate_add
        del: map_map)
qed

lemma get_activations_loop_filled:
  assumes "\<forall>b\<in>set bs. b \<noteq> [] \<and> model b = map f b \<and> (\<forall>x\<in>set b. length (f x) = D)"
    and "length pre + sum_list (map length bs) = total_count"
  shows "get_activations_loop model total_count bs (length pre)
           (Some (D, map Some pre @ replicate (total_count - length pre) None)) =
         Inr (Some (D, map Some (pre @ map f (concat bs))))"
  using assms
proof (induction bs arbitrary: pre)
  case Nil
  then show ?case by simp
next
  case (Cons b bs)
  have b: "b \<noteq> []" "model b = map f b" "\<forall>x\<in>set b. length (f x) = D"
    using Cons.prems(1) by auto
  have tot: "length pre + length b + sum_list (map length bs) = total_count"
    using Cons.prems(2) by simp
  then have rem: "total_count - length pre = length b + sum_list (map length bs)" by simp
  have step: "assign_rows (D, map Some pre @ replicate (total_count - length pre) None) (length pre)
           (length pre + length b) (map f b) =
         Inr (D, map Some (pre @ map f b) @ replicate (sum_list (map length bs)) None)"
    unfolding rem using assign_rows_in_range [OF tot b(1,3)] .
  have ih: "get_activations_loop model total_count bs (length (pre @ map f b))
           (Some (D, map Some (pre @ map f b) @ replicate (total_count - length (pre @ map f b)) None)) =
         Inr (Some (D, map Some ((pre @ map f b) @ map f (concat bs))))"
    using Cons.prems tot by (intro Cons.IH) auto
  have rem2: "total_count - (length pre + length b) = sum_list (map length bs)"
    using tot by simp
  have "get_activations_loop model total_count (b # bs) (length pre)
          (Some (D, map Some pre @ replicate (total_count - length pre) None)) =
        get_activations_loop model total_count bs (length pre + length b)
          (Some (D, map Some (pre @ map f b) @ replicate (sum_list (map length bs)) None))"
    using b(1) by (simp add: reshape_rows_def b(2) step del: map_append map_map)
  also have "\<dots> = Inr (Some (D, map Some ((pre @ map f b) @ map f (concat bs))))"
    using ih by (simp only: rem2 length_append length_map)
  also have "\<dots> = Inr (Some (D, map Some (pre @ map f (concat (b # bs)))))"
    by simp
  finally show ?case .
qed

lemma get_activations_filled:
  assumes "well_chunked model f D total_count bs"
  shows "get_activations bs total_count model = Inr (Some (D, map (\<lambda>x. Some (f x)) (concat bs)))"
proof -
  from assms obtain b rest where bs: "bs = b # rest"
    by (cases bs) (auto simp: well_chunked_def)
  have all: "\<forall>b\<in>set bs. b \<noteq> [] \<and> model b = map f b \<and> (\<forall>x\<in>set b. length (f x) = D)"
    and tot: "sum_list (map length bs) = total_count"
    using assms by (auto simp: well_chunked_def)
  have b: "b \<noteq> []" "model b = map f b" "\<forall>x\<in>set b. length (f x) = D"
    using all bs by auto
  have first: "get_activations_loop model total_count bs 0 None =
               get_activations_loop model total_count bs 0 (Some (D, replicate total_count None))"
    by (simp add: bs reshape_rows_def b(1,2) shape_map_rows [OF b(1,3)] np_empty_def)
  have "get_activations_loop model total_count bs (length ([] :: 'b list list))
           (Some (D, map Some [] @ replicate (total_count - length ([] :: 'b list list)) None)) =
         Inr (Some (D, map Some ([] @ map f (concat bs))))"
    using all tot by (intro get_activations_loop_filled) auto
  then show ?thesis
    by (simp add: get_activations_def first comp_def)
qed

section \<open>Lemmas about the scoring entry points\<close>

lemma shape_rows:
  assumes "rs \<noteq> []" and "\<forall>r\<in>set rs. length r = D"
  shows "shape rs = (length rs, D)"
  using assms by (cases rs) (simp_all add: shape_def)

lemma assign_rows_fill:
  assumes "rs \<noteq> []" and "\<forall>r\<in>set rs. length r = D"
    and "m = length rs + k" and "stop = length pre + length rs"
  shows "assign_rows (D, map Some pre @ replicate m None) (length pre) stop rs =
         Inr (D, map Some (pre @ rs) @ replicate k None)"
proof -
  have rows: "map (\<lambda>i. Some (broadcast_row D (rs ! (if length rs = 1 then 0 else i))))
                  [0..<length rs] = map Some rs"
    using assms(2) by (auto intro!: nth_equalityI simp: broadcast_row_def)
  show ?thesis
    using assms(1) rows
    by (simp add: assign_rows_def shape_rows [OF assms(1,2)] assms(3,4) Let_def replicate_add)
qed

lemma generator_step_None:
  assumes "generator_setting noise data_generator extract f D B" and "0 < B"
  shows "generator_step extract (data_generator (noise i)) n count bs None =
         generator_step extract (data_generator (noise i)) n count bs (Some (D, replicate n None))"
proof -
  let ?s = "data_generator (noise i)"
  have len: "length ?s = B" using assms(1) by (simp add: generator_setting_def)
  have ex: "extract ?s = map f ?s" using assms(1) by (simp add: generator_setting_def)
  have ne: "map f ?s \<noteq> []" using len assms(2) by auto
  have w: "\<forall>r\<in>set (map f ?s). length r = D" using assms(1) by (auto simp: generator_setting_def)
  show ?thesis
    using assms(2)
    by (simp add: generator_step_def get_feature_def reshape_rows_def len ex
        shape_rows [OF ne w] np_empty_def)
qed

lemma generator_step_full:
  assumes "generator_setting noise data_generator extract f D B" and "0 < B"
    and "length pre + B \<le> n"
  shows "generator_step extract (data_generator (noise i)) n (length pre) B
           (Some (D, map Some pre @ replicate (n - length pre) None)) =
         Inr (B, (D, map Some (pre @ generated_rows noise data_generator f i)
                     @ replicate (n - (length pre + B)) None))"
proof -
  let ?s = "data_generator (noise i)"
  let ?g = "generated_rows noise data_generator f i"
  have len: "length ?s = B" using assms(1) by (simp add: generator_setting_def)
  have ex: "extract ?s = ?g" using assms(1) by (simp add: generator_setting_def generated_rows_def)
  have glen: "length ?g = B" using len by (simp add: generated_rows_def)
  have ne: "?g \<noteq> []" using glen assms(2) by auto
  have w: "\<forall>r\<in>set ?g. length r = D"
    using assms(1) by (auto simp: generator_setting_def generated_rows_def)
  have rem: "n - length pre = length ?g + (n - (length pre + B))"
    using assms(3) glen by simp
  have "assign_rows (D, map Some pre @ replicate (n - length pre) None) (length pre)
          (length pre + B) ?g =
        Inr (D, map Some (pre @ ?g) @ replicate (n - (length pre + B)) None)"
    by (rule assign_rows_fill [OF ne w rem]) (simp add: glen)
  then show ?thesis
    using assms(2,3)
    by (simp add: generator_step_def get_feature_def reshape_rows_def len ex)
qed

lemma generator_step_last:
  assumes "generator_setting noise data_generator extract f D B"
    and "length pre < n" and "n < length pre + B"
  shows "generator_step extract (data_generator (noise i)) n (length pre) B
           (Some (D, map Some pre @ replicate (n - length pre) None)) =
         Inr (n - length pre,
              (D, map Some (pre @ take (n - length pre) (generated_rows noise data_generator f i))))"
proof -
  let ?s = "data_generator (noise i)"
  let ?g = "generated_rows noise data_generator f i"
  let ?t = "take (n - length pre) ?g"
  have len: "length ?s = B" using assms(1) by (simp add: generator_setting_def)
  have ex: "extract ?s = ?g" using assms(1) by (simp add: generator_setting_def generated_rows_def)
  have glen: "length ?g = B" using len by (simp add: generated_rows_def)
  have tlen: "length ?t = n - length pre" using glen assms(2,3) by simp
  have ne: "?t \<noteq> []" using tlen assms(2) by auto
  have w: "\<forall>r\<in>set ?t. length r = D"
    using assms(1) by (auto simp: generator_setting_def generated_rows_def dest!: in_set_takeD)
  have B: "0 < B" using assms(2,3) by simp
  have "assign_rows (D, map Some pre @ replicate (n - length pre) None) (length pre)
          (length (snd (D, map Some pre @ replicate (n - length pre) None))) ?t =
        Inr (D, map Some (pre @ ?t) @ replicate 0 None)"
    using assms(2) by (intro assign_rows_fill [OF ne w]) (simp_all only: tlen, simp_all)
  then have "assign_rows (D, map Some pre @ replicate (n - length pre) None) (length pre)
          (length (snd (D, map Some pre @ replicate (n - length pre) None))) ?t =
        Inr (D, map Some (pre @ ?t))"
    by simp
  then show ?thesis
    using assms(2,3) B
    by (simp add: generator_step_def get_feature_def reshape_rows_def len ex Let_def)
qed

lemma generator_loop_done:
  "n \<le> count \<Longrightarrow> generator_loop noise data_generator extract n i count bs features =
     Some (Inr features)"
  by (subst generator_loop.simps) simp

lemma generator_loop_filled:
  assumes "generator_setting noise data_generator extract f D B" and "0 < B"
    and "length pre \<le> n"
  shows "generator_loop noise data_generator extract n i (length pre) B
           (Some (D, map Some pre @ replicate (n - length pre) None)) =
         Some (Inr (Some (D, map Some (take n (pre @ concat (map (generated_rows noise data_generator f)
                                    [i..<i + (n - length pre + B - 1) div B]))))))"
  using assms(3)
proof (induction "n - length pre" arbitrary: pre i rule: less_induct)
  case less
  let ?g = "generated_rows noise data_generator f"
  have glen: "length (?g j) = B" for j
    using assms(1) by (simp add: generator_setting_def generated_rows_def)
  consider (finished) "length pre = n" | (final) "length pre < n" "n < length pre + B"
    | (whole) "length pre + B \<le> n"
    using less.prems by linarith
  then show ?case
  proof cases
    case finished
    have "(n - length pre + B - 1) div B = 0" using finished assms(2) by simp
    then show ?thesis using finished by (simp add: generator_loop_done)
  next
    case final
    have m: "(n - length pre + B - 1) div B = 1"
    proof -
      have "B \<le> n - length pre + B - 1" using final by simp
      moreover have "n - length pre + B - 1 < 2 * B" using final by simp
      ultimately show ?thesis
        by (metis One_nat_def Suc_1 div_nat_eqI mult.commute mult_Suc_right nat_mult_1)
    qed
    have "generator_loop noise data_generator extract n i (length pre) B
           (Some (D, map Some pre @ replicate (n - length pre) None)) =
          generator_loop noise data_generator extract n (Suc i) (length pre + (n - length pre))
           (n - length pre) (Some (D, map Some (pre @ take (n - length pre) (?g i))))"
      using final(1)
      by (subst generator_loop.simps)
        (simp add: generator_step_last [OF assms(1) final])
    also have "\<dots> = Some (Inr (Some (D, map Some (pre @ take (n - length pre) (?g i)))))"
      using final(1) by (simp add: generator_loop_done)
    finally show ?thesis unfolding m using final(1) by simp
  next
    case whole
    have lt: "length pre < n" using whole assms(2) by simp
    let ?pre' = "pre @ ?g i"
    have len': "length ?pre' = length pre + B" by (simp add: glen)
    have m: "(n - length pre + B - 1) div B = Suc ((n - length ?pre' + B - 1) div B)"
    proof -
      define c where "c = n - (length pre + B) + B - 1"
      have 1: "n - length pre + B - 1 = c + B"
        using whole assms(2) by (simp add: c_def)
      have 2: "n - length ?pre' + B - 1 = c"
        by (simp add: c_def glen)
      show ?thesis unfolding 1 2 using assms(2) by simp
    qed
    have up: "[i..<i + Suc M] = i # [Suc i..<Suc i + M]" for M
      by (simp add: upt_conv_Cons)
    have ih: "generator_loop noise data_generator extract n (Suc i) (length ?pre') B
           (Some (D, map Some ?pre' @ replicate (n - length ?pre') None)) =
         Some (Inr (Some (D, map Some (take n (?pre' @ concat (map ?g
                                    [Suc i..<Suc i + (n - length ?pre' + B - 1) div B]))))))"
      using whole assms(2) by (intro less.hyps) (simp_all add: glen)
    have "generator_loop noise data_generator extract n i (length pre) B
           (Some (D, map Some pre @ replicate (n - length pre) None)) =
          generator_loop noise data_generator extract n (Suc i) (length pre + B) B
           (Some (D, map Some ?pre' @ replicate (n - (length pre + B)) None))"
      using lt
      by (subst generator_loop.simps)
        (simp add: generator_step_full [OF assms(1,2) whole])
    also have "\<dots> = Some (Inr (Some (D, map Some (take n (?pre' @ concat (map ?g
                                    [Suc i..<Suc i + (n - length ?pre' + B - 1) div B]))))))"
      using ih by (simp only: len')
    finally show ?thesis
      unfolding m up by simp
  qed
qed

lemma generator_loop_first:
  assumes "generator_setting noise data_generator extract f D B" and "0 < B" and "0 < n"
  shows "generator_loop noise data_generator extract n 0 0 B None =
         generator_loop noise data_generator extract n 0 0 B (Some (D, replicate n None))"
  using assms(3)
  by (subst generator_loop.simps, subst (2) generator_loop.simps)
    (simp add: generator_step_None [OF assms(1,2)])

lemma data_generator_fid_rows:
  assumes "generator_setting noise data_generator extract f D B" and "0 < B" and "0 < n"
  shows "data_generator_fid fid noise data_generator extract n B =
         Some (Inr (fid (D, map Some (take n (concat (map (generated_rows noise data_generator f)
                                                      [0..<(n + B - 1) div B]))))))"
proof -
  have "generator_loop noise data_generator extract n 0 0 B (Some (D, replicate n None)) =
         Some (Inr (Some (D, map Some (take n (concat (map (generated_rows noise data_generator f)
                                    [0..<(n + B - 1) div B]))))))"
    using generator_loop_filled [OF assms(1,2), where pre = "[]" and n = n and i = 0] by simp
  then show ?thesis
    by (simp add: data_generator_fid_def generator_loop_first [OF assms])
qed

lemma length_concat_batches:
  assumes "\<forall>i<k. length (g i) = B"
  shows "length (concat (map g [0..<k])) = k * B"
  using assms by (induction k) simp_all

lemma imputer_loop_filled:
  assumes "imputer_setting imputer extract f D" and "0 < B"
    and "\<forall>b\<in>set bs. length b = B" and "length pre + length bs * B = n"
  shows "imputer_loop noise imputer extract n B bs i (length pre)
           (Some (D, map Some pre @ replicate (n - length pre) None)) =
         Inr (Some (D, map Some (pre @ concat (map (\<lambda>jb. map f (imputer (snd jb) (noise (fst jb))))
                                                 (zip [i..<i + length bs] bs)))))"
  using assms(3,4)
proof (induction bs arbitrary: i pre)
  case Nil
  then show ?case by simp
next
  case (Cons b bs)
  let ?s = "imputer b (noise i)"
  let ?g = "map f ?s"
  have len: "length ?s = B" using assms(1) Cons.prems(1) by (simp add: imputer_setting_def)
  have ex: "extract ?s = ?g" using assms(1) by (simp add: imputer_setting_def)
  have sne: "?s \<noteq> []" using len assms(2) by auto
  have ne: "?g \<noteq> []" using len assms(2) by auto
  have w: "\<forall>r\<in>set ?g. length r = D" using assms(1) by (auto simp: imputer_setting_def)
  have rem: "n - length pre = length ?g + (n - (length pre + B))"
    using Cons.prems(2) len by simp
  have step: "assign_rows (D, map Some pre @ replicate (n - length pre) None) (length pre)
          (length pre + B) ?g =
        Inr (D, map Some (pre @ ?g) @ replicate (n - (length pre + B)) None)"
    by (rule assign_rows_fill [OF ne w rem]) (simp add: len)
  have ih: "imputer_loop noise imputer extract n B bs (Suc i) (length (pre @ ?g))
           (Some (D, map Some (pre @ ?g) @ replicate (n - length (pre @ ?g)) None)) =
         Inr (Some (D, map Some ((pre @ ?g) @ concat (map (\<lambda>jb. map f (imputer (snd jb) (noise (fst jb))))
                                                 (zip [Suc i..<Suc i + length bs] bs)))))"
    using Cons.prems by (intro Cons.IH) (simp_all add: len)
  have up: "[i..<i + Suc M] = i # [Suc i..<Suc i + M]" for M
    by (simp add: upt_conv_Cons)
  have "imputer_loop noise imputer extract n B (b # bs) i (length pre)
           (Some (D, map Some pre @ replicate (n - length pre) None)) =
        imputer_loop noise imputer extract n B bs (Suc i) (length pre + B)
           (Some (D, map Some (pre @ ?g) @ replicate (n - (length pre + B)) None))"
    using assms(2) sne
    by (simp add: get_feature_def reshape_rows_def ex step Let_def del: map_append)
  also have "\<dots> = Inr (Some (D, map Some ((pre @ ?g) @ concat (map (\<lambda>jb. map f (imputer (snd jb) (noise (fst jb))))
                                                 (zip [Suc i..<Suc i + length bs] bs)))))"
    using ih by (simp add: len)
  finally show ?case unfolding length_Cons up by simp
qed

lemma imputer_loop_first:
  assumes "imputer_setting imputer extract f D" and "0 < B" and "\<forall>b\<in>set bs. length b = B"
  shows "imputer_loop noise imputer extract n B bs 0 0 None =
         (if bs = [] then Inr None
          else imputer_loop noise imputer extract n B bs 0 0 (Some (D, replicate n None)))"
proof (cases bs)
  case Nil
  then show ?thesis by simp
next
  case (Cons b rest)
  let ?s = "imputer b (noise 0)"
  have len: "length ?s = B" using assms(1,3) Cons by (simp add: imputer_setting_def)
  have ex: "extract ?s = map f ?s" using assms(1) by (simp add: imputer_setting_def)
  have sne: "?s \<noteq> []" using len assms(2) by auto
  have ne: "map f ?s \<noteq> []" using len assms(2) by auto
  have w: "\<forall>r\<in>set (map f ?s). length r = D" using assms(1) by (auto simp: imputer_setting_def)
  show ?thesis
    using assms(2) sne
    by (simp add: Cons get_feature_def reshape_rows_def ex shape_rows [OF ne w] np_empty_def
        Let_def)
qed

lemma data_loader_batch_length:
  assumes "0 < B"
  shows "\<forall>b\<in>set (data_loader_drop_last B data). length b = B"
proof
  fix b assume "b \<in> set (data_loader_drop_last B data)"
  then obtain k where k: "k < length data div B" and b: "b = take B (drop (k * B) data)"
    by (auto simp: data_loader_drop_last_def)
  have "Suc k * B \<le> length data div B * B" using k by (simp add: Suc_leI mult_le_mono1 del: mult_Suc)
  also have "\<dots> \<le> length data" by simp
  finally have "k * B + B \<le> length data" by simp
  then show "length b = B" by (simp add: b)
qed

lemma zip_upt_map: "zip [0..<k] (map h [0..<k]) = map (\<lambda>j. (j, h j)) [0..<k]"
  by (simp add: zip_map2 zip_same_conv_map)

lemma imputer_fid_rows:
  assumes "imputer_setting imputer extract f D" and "0 < B" and "B \<le> length data"
  shows "imputer_fid fid noise imputer extract data B =
         Inr (fid (D, map Some (concat (map (imputed_rows noise imputer f B data)
                                            [0..<length data div B]))))"
proof -
  let ?bs = "data_loader_drop_last B data"
  let ?n = "length ?bs * B"
  have lens: "\<forall>b\<in>set ?bs. length b = B" by (rule data_loader_batch_length [OF assms(2)])
  have k: "length ?bs = length data div B" by (simp add: data_loader_drop_last_def)
  have "0 < length data div B" using assms(2,3) by (simp add: div_greater_zero_iff)
  then have ne: "?bs \<noteq> []" using k by auto
  have filled: "imputer_loop noise imputer extract ?n B ?bs 0 0 (Some (D, replicate ?n None)) =
         Inr (Some (D, map Some (concat (map (\<lambda>jb. map f (imputer (snd jb) (noise (fst jb))))
                                                 (zip [0..<length ?bs] ?bs)))))"
    using imputer_loop_filled [OF assms(1,2) lens, where pre = "[]" and n = ?n and noise = noise
        and i = 0] by simp
  have rows: "map (\<lambda>jb. map f (imputer (snd jb) (noise (fst jb)))) (zip [0..<length ?bs] ?bs) =
              map (imputed_rows noise imputer f B data) [0..<length data div B]"
    unfolding k by (simp add: data_loader_drop_last_def zip_upt_map imputed_rows_def comp_def)
  have "imputer_loop noise imputer extract ?n B ?bs 0 0 None =
        Inr (Some (D, map Some (concat (map (imputed_rows noise imputer f B data)
                                            [0..<length data div B]))))"
    using filled ne unfolding rows
    by (simp add: imputer_loop_first [OF assms(1,2) lens])
  then show ?thesis
    using assms(2) by (simp add: imputer_fid_def Let_def)
qed

lemma batches_cover: 
  assumes "0 < B"
  shows "(n::nat) \<le> (n + B - 1) div B * B"
proof -
  have "(n + B - 1) div B * B = (n + B - 1) - (n + B - 1) mod B"
    by (simp add: minus_mod_eq_div_mult)
  moreover have "(n + B - 1) mod B \<le> B - 1"
    using assms by (metis One_nat_def Suc_pred less_Suc_eq_le mod_less_divisor)
  ultimately show ?thesis using assms by linarith
qed

lemma length_generated_rows:
  "generator_setting noise data_generator extract f D B \<Longrightarrow>
   length (generated_rows noise data_generator f i) = B"
  by (simp add: generator_setting_def generated_rows_def)

lemma length_imputed_rows:
  assumes "imputer_setting imputer extract f D" and "0 < B" and "i < length data div B"
  shows "length (imputed_rows noise imputer f B data i) = B"
proof -
  have "take B (drop (i * B) data) \<in> set (data_loader_drop_last B data)"
    using assms(3) by (auto simp: data_loader_drop_last_def)
  then have "length (take B (drop (i * B) data)) = B"
    using data_loader_batch_length [OF assms(2)] by blast
  then show ?thesis
    using assms(1) by (simp add: imputed_rows_def imputer_setting_def)
qed

lemma toy_generator_setting:
  "generator_setting counting_noise generator_keep feature_pair (\<lambda>x. [x, 2 * x]) 2 2"
  by (simp add: generator_setting_def counting_noise_def generator_keep_def feature_pair_def)

lemma toy_imputer_setting: "imputer_setting imputer_keep feature_pair (\<lambda>x. [x, 2 * x]) 2"
  by (simp add: imputer_setting_def imputer_keep_def feature_pair_def)

section \<open>Claims about the Frechet distance\<close>

text \<open>
  Claim C1. As stated (the distance is
  \<open>||mu1 - mu2||^2 + trace(sigma1) + trace(sigma2) - 2 trace(sqrtm(sigma1 sigma2))\<close> for every
  input of matching shapes) the claim fails where the product has no square root with
  finite entries: the program then takes the square root of the regularised product.
  The source expects this of a product that is almost singular (line 100) and prints
  that it adds \<open>eps\<close> to the diagonals. In exact arithmetic a product of two positive
  semi-definite matrices always has a square root, so the input below is not one: the
  function does not check that its arguments are symmetric or positive semi-definite. For \<open>sigma1 = [[0, 1], [0, 0]]\<close> and \<open>sigma2 = 3 * 10^-6 * I\<close> the product
  \<open>[[0, 3 * 10^-6], [0, 0]]\<close> is nilpotent and has no square root, the routine returns
  an array of non-finite entries, and the claimed value is non-finite. The program calls
  the routine a second time, on \<open>[[4 * 10^-12, 4 * 10^-6], [0, 4 * 10^-12]]\<close>, whose
  root is \<open>[[2 * 10^-6, 1], [0, 2 * 10^-6]]\<close>, and returns \<open>-2 * 10^-6\<close>.
\<close>

theorem frechet_distance_formula_counterexample:
  "sqrtm_triangular2 (mat_dot [[0, 1], [0, 0]] [[3 / 1000000, 0], [0, 3 / 1000000]]) =
     RealM [[None, None], [None, None]]
   \<and> fl_sub (Some (vec_dot (vec_sub [0, 0] [0, 0]) (vec_sub [0, 0] [0, 0])
                    + trace [[0, 1], [0, 0]] + trace [[3 / 1000000, 0], [0, 3 / 1000000]]))
             (fl_mul (Some 2) (fl_trace [[None, None], [None, None]])) = None
   \<and> calculate_frechet_distance sqrtm_triangular2 [0, 0] [[0, 1], [0, 0]] [0, 0]
         [[3 / 1000000, 0], [0, 3 / 1000000]] (1 / 1000000) =
       ([[[0, 3 / 1000000], [0, 0]],
         [[1 / 250000000000, 1 / 250000], [0, 1 / 250000000000]]],
        Inr (Some (- (1 / 500000))))"
proof -
  have a: "sqrtm_triangular2 (mat_dot [[0, 1], [0, 0]] [[3 / 1000000, 0], [0, 3 / 1000000]]) =
     RealM [[None, None], [None, None]]"
    by (simp add: eval_dot2 sqrtm_upper2_def)
  have b: "fl_sub (Some (vec_dot (vec_sub [0, 0] [0, 0]) (vec_sub [0, 0] [0, 0])
                    + trace [[0, 1], [0, 0]] + trace [[3 / 1000000, 0], [0, 3 / 1000000]]))
             (fl_mul (Some 2) (fl_trace [[None, None], [None, None]])) = None"
    by (simp add: fl_trace_def diagonal_def shape_def upt_2 fl_simps)
  have nf: "\<not> isfinite_all (RealM [[None, None], [None, None]])"
    by (simp add: isfinite_all_def)
  have len: "length [0::real, 0] = length [0::real, 0]" by simp
  have c: "calculate_frechet_distance sqrtm_triangular2 [0, 0] [[0, 1], [0, 0]] [0, 0]
         [[3 / 1000000, 0], [0, 3 / 1000000]] (1 / 1000000) =
       ([[[0, 3 / 1000000], [0, 0]],
         [[1 / 250000000000, 1 / 250000], [0, 1 / 250000000000]]],
        Inr (Some (- (1 / 500000))))"
    using nf
    by (simp add: cfd_unfold [OF len is_square_2 is_square_2] eval_dot2 eval_plus_eps2
        sqrt_vals sqrtm_upper2_def distance_of_covmean_def vec_sub_def vec_dot_def trace_def fl_trace_def
        diagonal_def shape_def upt_2 fl_simps fl_add_Some)
  show ?thesis using a b c by simp
qed

text \<open>
  Claim C1, amended. When the mean vectors have the same length, the covariance matrices
  are \<open>n\<close> by \<open>n\<close>, and the square root of their product has finite entries only and is
  real, or complex with every diagonal imaginary part within \<open>1e-3\<close> of zero, the program
  calls the square root once and returns
  \<open>||mu1 - mu2||^2 + trace(sigma1) + trace(sigma2) - 2 trace(c)\<close>, where \<open>c\<close> is the real part
  of that square root.
\<close>

theorem frechet_distance_formula:
  assumes "length mu1 = length mu2" and "is_square n sigma1" and "is_square n sigma2"
    and "is_square n c"
    and "sqrtm (mat_dot sigma1 sigma2) = RealM (map (map Some) c) \<or>
         (\<exists>z. sqrtm (mat_dot sigma1 sigma2) = ComplexM (map (map (\<lambda>(x, y). (Some x, Some y))) z)
              \<and> c = map (map fst) z \<and> (\<forall>i<n. \<bar>snd (z ! i ! i)\<bar> \<le> 1 / 1000))"
  shows "calculate_frechet_distance sqrtm mu1 sigma1 mu2 sigma2 eps =
           ([mat_dot sigma1 sigma2],
            Inr (Some ((\<Sum>i<length mu1. (mu1 ! i - mu2 ! i)\<^sup>2)
                        + (\<Sum>i<n. sigma1 ! i ! i) + (\<Sum>i<n. sigma2 ! i ! i)
                        - 2 * (\<Sum>i<n. c ! i ! i))))"
  using assms(5)
proof
  assume r: "sqrtm (mat_dot sigma1 sigma2) = RealM (map (map Some) c)"
  have fin: "isfinite_all (RealM (map (map Some) c))"
    by (simp add: isfinite_all_def list_all_iff)
  show ?thesis
    using assms(1) fin
    by (simp add: cfd_unfold [OF assms(1-3)] r distance_of_covmean_def vec_dot_diff
        trace_square [OF assms(2)] trace_square [OF assms(3)] fl_trace_finite [OF assms(4)]
        fl_simps)
next
  assume "\<exists>z. sqrtm (mat_dot sigma1 sigma2) = ComplexM (map (map (\<lambda>(x, y). (Some x, Some y))) z)
              \<and> c = map (map fst) z \<and> (\<forall>i<n. \<bar>snd (z ! i ! i)\<bar> \<le> 1 / 1000)"
  then obtain z where r: "sqrtm (mat_dot sigma1 sigma2) = ComplexM (map (map (\<lambda>(x, y). (Some x, Some y))) z)"
    and c: "c = map (map fst) z" and tol: "\<forall>i<n. \<bar>snd (z ! i ! i)\<bar> \<le> 1 / 1000"
    by blast
  let ?zz = "map (map (\<lambda>(x, y). (Some x, Some y))) z"
  have sqz: "is_square n z" using assms(4) c by (auto simp: is_square_def)
  have fin: "isfinite_all (ComplexM ?zz)"
    by (auto simp: isfinite_all_def list_all_iff)
  have rp: "realpart ?zz = map (map Some) c"
    by (simp add: realpart_def c comp_def case_prod_beta)
  have "diagonal (imag ?zz) = map (\<lambda>i. Some (snd (z ! i ! i))) [0..<n]"
    using sqz by (simp add: imag_def diagonal_map_square comp_def case_prod_beta)
  then have close: "allclose0 (diagonal (imag ?zz)) (1 / 1000)"
    using tol by (simp add: allclose0_def list_all_iff)
  show ?thesis
    using assms(1) fin close
    by (simp add: cfd_unfold [OF assms(1-3)] r distance_of_covmean_def vec_dot_diff
        trace_square [OF assms(2)] trace_square [OF assms(3)] rp fl_trace_finite [OF assms(4)]
        fl_simps)
qed

theorem frechet_distance_formula_witness:
  "calculate_frechet_distance sqrtm_identity2 [0, 0] [[1, 0], [0, 1]] [3, 4] [[1, 0], [0, 1]]
     (1 / 1000000) = ([[[1, 0], [0, 1]]], Inr (Some 25))"
  using frechet_distance_formula [of "[0, 0]" "[3, 4]" 2 "[[1, 0], [0, 1]]" "[[1, 0], [0, 1]]"
      "[[1, 0], [0, 1]]" sqrtm_identity2 "1 / 1000000", OF _ is_square_2 is_square_2 is_square_2]
  by (simp add: sqrtm_identity2_def mat_dot_def shape_def upt_2 lessThan_Suc numeral_2_eq_2)



text \<open>
  Claim C3. The square root is called once on the product of the covariance matrices.
  If its result has a non-finite entry it is called once more, on the product of
  \<open>sigma1 + eps * I\<close> and \<open>sigma2 + eps * I\<close>, and the distance is computed from that second
  result; otherwise there is no second call. No call makes more than two.
\<close>

theorem sqrtm_retried_at_most_once:
  assumes "length mu1 = length mu2" and "is_square n sigma1" and "is_square n sigma2"
  shows "fst (calculate_frechet_distance sqrtm mu1 sigma1 mu2 sigma2 eps) =
           (if isfinite_all (sqrtm (mat_dot sigma1 sigma2))
            then [mat_dot sigma1 sigma2]
            else [mat_dot sigma1 sigma2,
                  mat_dot (plus_eps_identity n eps sigma1) (plus_eps_identity n eps sigma2)])
         \<and> length (fst (calculate_frechet_distance sqrtm mu1 sigma1 mu2 sigma2 eps)) \<le> 2
         \<and> (\<not> isfinite_all (sqrtm (mat_dot sigma1 sigma2)) \<longrightarrow>
              snd (calculate_frechet_distance sqrtm mu1 sigma1 mu2 sigma2 eps) =
                distance_of_covmean (vec_sub mu1 mu2) sigma1 sigma2
                  (sqrtm (mat_dot (plus_eps_identity n eps sigma1)
                                  (plus_eps_identity n eps sigma2))))"
  by (simp add: cfd_unfold [OF assms])

theorem sqrtm_retried_at_most_once_witness:
  "\<not> isfinite_all (sqrtm_nan_on_zero (mat_dot [[0]] [[0]]))
   \<and> calculate_frechet_distance sqrtm_nan_on_zero [0] [[0]] [0] [[0]] (1 / 1000000) =
       ([[[0]], [[1 / 1000000000000]]], Inr (Some (- (1 / 500000))))"
proof -
  have nf: "\<not> isfinite_all (sqrtm_nan_on_zero (mat_dot [[0]] [[0]]))"
    by (simp add: sqrtm_nan_on_zero_def mat_dot_def shape_def isfinite_all_def)
  have p: "mat_dot (plus_eps_identity (Suc 0) (1 / 1000000) [[0]])
                   (plus_eps_identity (Suc 0) (1 / 1000000) [[0]]) = [[1 / 1000000000000]]"
    by (simp add: plus_eps_identity_def mat_dot_def shape_def)
  have d: "distance_of_covmean (vec_sub [0] [0]) [[0]] [[0]] (sqrtm_nan_on_zero [[1 / 1000000000000]])
           = Inr (Some (- (1 / 500000)))"
    by (simp add: sqrtm_nan_on_zero_def distance_of_covmean_def vec_sub_def vec_dot_def
        trace_def diagonal_def shape_def fl_trace_def fl_simps fl_add_Some)
  have m: "mat_dot [[0]] [[0]] = [[0]]"
    by (simp add: mat_dot_def shape_def)
  show ?thesis
    using sqrtm_retried_at_most_once [of "[0]" "[0]" "Suc 0" "[[0]]" "[[0]]" sqrtm_nan_on_zero
        "1 / 1000000"] nf p d m
    by (simp add: is_square_1 prod_eq_iff)
qed

text \<open>
  Claim C4. As stated (a retry that still gives an invalid square root ends in an error,
  never in a non-finite score) the claim fails: the result of the retry is not checked
  for finiteness. For \<open>sigma1 = [[0, 1], [0, 0]]\<close>, \<open>sigma2 = [[-10^-6, 1], [0, -10^-6]]\<close>
  and \<open>eps = 10^-6\<close> the product \<open>[[0, -10^-6], [0, 0]]\<close> and the regularised product
  \<open>[[0, 10^-6], [0, 0]]\<close> are both nilpotent and have no square root: the routine
  returns an array of non-finite entries twice, and the program returns a non-finite
  score and raises nothing.
\<close>

theorem retry_result_counterexample:
  "calculate_frechet_distance sqrtm_triangular2 [0, 0] [[0, 1], [0, 0]] [0, 0]
         [[- (1 / 1000000), 1], [0, - (1 / 1000000)]] (1 / 1000000) =
       ([[[0, - (1 / 1000000)], [0, 0]], [[0, 1 / 1000000], [0, 0]]], Inr None)
   \<and> sqrtm_triangular2 [[0, - (1 / 1000000)], [0, 0]] = RealM [[None, None], [None, None]]
   \<and> sqrtm_triangular2 [[0, 1 / 1000000], [0, 0]] = RealM [[None, None], [None, None]]"
proof -
  have nf: "\<not> isfinite_all (RealM [[None, None], [None, None]])"
    by (simp add: isfinite_all_def)
  have len: "length [0::real, 0] = length [0::real, 0]" by simp
  show ?thesis
    using nf
    by (simp add: cfd_unfold [OF len is_square_2 is_square_2] eval_dot2 eval_plus_eps2 sqrtm_upper2_def
        distance_of_covmean_def fl_trace_def diagonal_def shape_def upt_2 fl_simps)
qed

text \<open>
  Claim C4, amended. After a first square root with a non-finite entry there is exactly
  one retry, on the regularised product, and its result is used without a finiteness
  check. A real result gives the returned score, computed from its trace, which is
  non-finite when a diagonal entry of the result is. A complex result raises the error
  of the imaginary component when some diagonal imaginary part is not within \<open>1e-3\<close> of
  zero, and gives the score computed from its real part otherwise.
\<close>

theorem retry_result_used_without_finiteness_check:
  assumes "length mu1 = length mu2" and "is_square n sigma1" and "is_square n sigma2"
    and "\<not> isfinite_all (sqrtm (mat_dot sigma1 sigma2))"
  shows "fst (calculate_frechet_distance sqrtm mu1 sigma1 mu2 sigma2 eps) =
           [mat_dot sigma1 sigma2,
            mat_dot (plus_eps_identity n eps sigma1) (plus_eps_identity n eps sigma2)]
         \<and> (\<forall>c. sqrtm (mat_dot (plus_eps_identity n eps sigma1) (plus_eps_identity n eps sigma2))
                    = RealM c \<longrightarrow>
                snd (calculate_frechet_distance sqrtm mu1 sigma1 mu2 sigma2 eps) =
                  Inr (fl_sub (Some ((\<Sum>i<length mu1. (mu1 ! i - mu2 ! i)\<^sup>2)
                                       + (\<Sum>i<n. sigma1 ! i ! i) + (\<Sum>i<n. sigma2 ! i ! i)))
                              (fl_mul (Some 2) (fl_trace c))))
         \<and> (\<forall>c i. sqrtm (mat_dot (plus_eps_identity n eps sigma1) (plus_eps_identity n eps sigma2))
                    = RealM c \<and> is_square n c \<and> i < n \<and> c ! i ! i = None \<longrightarrow>
                snd (calculate_frechet_distance sqrtm mu1 sigma1 mu2 sigma2 eps) = Inr None)
         \<and> (\<forall>c. sqrtm (mat_dot (plus_eps_identity n eps sigma1) (plus_eps_identity n eps sigma2))
                    = ComplexM c \<and> \<not> allclose0 (diagonal (imag c)) (1 / 1000) \<longrightarrow>
                (\<exists>m. snd (calculate_frechet_distance sqrtm mu1 sigma1 mu2 sigma2 eps) =
                       Inl (ValueError_Imaginary_component m)))
         \<and> (\<forall>c. sqrtm (mat_dot (plus_eps_identity n eps sigma1) (plus_eps_identity n eps sigma2))
                    = ComplexM c \<and> allclose0 (diagonal (imag c)) (1 / 1000) \<longrightarrow>
                snd (calculate_frechet_distance sqrtm mu1 sigma1 mu2 sigma2 eps) =
                  Inr (fl_sub (Some ((\<Sum>i<length mu1. (mu1 ! i - mu2 ! i)\<^sup>2)
                                       + (\<Sum>i<n. sigma1 ! i ! i) + (\<Sum>i<n. sigma2 ! i ! i)))
                              (fl_mul (Some 2) (fl_trace (realpart c)))))"
proof -
  let ?r = "sqrtm (mat_dot (plus_eps_identity n eps sigma1) (plus_eps_identity n eps sigma2))"
  let ?base = "Some ((\<Sum>i<length mu1. (mu1 ! i - mu2 ! i)\<^sup>2)
                      + (\<Sum>i<n. sigma1 ! i ! i) + (\<Sum>i<n. sigma2 ! i ! i))"
  have s: "snd (calculate_frechet_distance sqrtm mu1 sigma1 mu2 sigma2 eps) =
             distance_of_covmean (vec_sub mu1 mu2) sigma1 sigma2 ?r"
    using assms(4) by (simp add: cfd_unfold [OF assms(1-3)])
  have l: "fst (calculate_frechet_distance sqrtm mu1 sigma1 mu2 sigma2 eps) =
           [mat_dot sigma1 sigma2,
            mat_dot (plus_eps_identity n eps sigma1) (plus_eps_identity n eps sigma2)]"
    using assms(4) by (simp add: cfd_unfold [OF assms(1-3)])
  have base: "Some (vec_dot (vec_sub mu1 mu2) (vec_sub mu1 mu2) + trace sigma1 + trace sigma2)
              = ?base"
    using assms(1) by (simp add: vec_dot_diff trace_square [OF assms(2)] trace_square [OF assms(3)])
  have b: "distance_of_covmean (vec_sub mu1 mu2) sigma1 sigma2 ?r =
             Inr (fl_sub ?base (fl_mul (Some 2) (fl_trace c)))" if "?r = RealM c" for c
    using that by (simp add: distance_of_covmean_def base)
  have c: "distance_of_covmean (vec_sub mu1 mu2) sigma1 sigma2 ?r = Inr None"
    if "?r = RealM c" "is_square n c" "i < n" "c ! i ! i = None" for c i
    using b [OF that(1)] fl_trace_nonfinite [OF that(2-4)] by (simp add: fl_simps)
  have d: "\<exists>m. distance_of_covmean (vec_sub mu1 mu2) sigma1 sigma2 ?r =
               Inl (ValueError_Imaginary_component m)"
    if "?r = ComplexM c" "\<not> allclose0 (diagonal (imag c)) (1 / 1000)" for c
    using that by (simp add: distance_of_covmean_def)
  have e: "distance_of_covmean (vec_sub mu1 mu2) sigma1 sigma2 ?r =
             Inr (fl_sub ?base (fl_mul (Some 2) (fl_trace (realpart c))))"
    if "?r = ComplexM c" "allclose0 (diagonal (imag c)) (1 / 1000)" for c
    using that by (simp add: distance_of_covmean_def base)
  show ?thesis
    unfolding s l using b c d e by blast
qed

theorem retry_result_used_without_finiteness_check_witness:
  "\<not> isfinite_all (sqrtm_triangular2 (mat_dot [[0, 1], [0, 0]]
                                               [[- (1 / 1000000), 1], [0, - (1 / 1000000)]]))
   \<and> fst (calculate_frechet_distance sqrtm_triangular2 [0, 0] [[0, 1], [0, 0]] [0, 0]
         [[- (1 / 1000000), 1], [0, - (1 / 1000000)]] (1 / 1000000)) =
       [[[0, - (1 / 1000000)], [0, 0]], [[0, 1 / 1000000], [0, 0]]]
   \<and> snd (calculate_frechet_distance sqrtm_triangular2 [0, 0] [[0, 1], [0, 0]] [0, 0]
         [[- (1 / 1000000), 1], [0, - (1 / 1000000)]] (1 / 1000000)) = Inr None"
proof -
  have nf: "\<not> isfinite_all (sqrtm_triangular2 (mat_dot [[0, 1], [0, 0]]
                                               [[- (1 / 1000000), 1], [0, - (1 / 1000000)]]))"
    by (simp add: eval_dot2 sqrtm_upper2_def isfinite_all_def)
  have len: "length [0::real, 0] = length [0::real, 0]" by simp
  have r: "sqrtm_triangular2 (mat_dot (plus_eps_identity 2 (1 / 1000000) [[0, 1], [0, 0]])
              (plus_eps_identity 2 (1 / 1000000) [[- (1 / 1000000), 1], [0, - (1 / 1000000)]])) =
           RealM [[None, None], [None, None]]"
    by (simp add: eval_dot2 eval_plus_eps2 sqrtm_upper2_def)
  have sq: "is_square 2 [[None :: fl, None], [None, None]]" by (rule is_square_2)
  have s1: "is_square 2 [[0 :: real, 1], [0, 0]]" by (rule is_square_2)
  have s2: "is_square 2 [[- (1 / 1000000) :: real, 1], [0, - (1 / 1000000)]]"
    by (rule is_square_2)
  note inst = retry_result_used_without_finiteness_check [where sqrtm = sqrtm_triangular2
      and eps = "1 / 1000000", OF len s1 s2 nf]
  have l: "fst (calculate_frechet_distance sqrtm_triangular2 [0, 0] [[0, 1], [0, 0]] [0, 0]
         [[- (1 / 1000000), 1], [0, - (1 / 1000000)]] (1 / 1000000)) =
       [[[0, - (1 / 1000000)], [0, 0]], [[0, 1 / 1000000], [0, 0]]]"
    using inst by (simp add: eval_dot2 eval_plus_eps2)
  have "(0::nat) < 2 \<and> [[None :: fl, None], [None, None]] ! 0 ! 0 = None" by simp
  with inst r sq
  have v: "snd (calculate_frechet_distance sqrtm_triangular2 [0, 0] [[0, 1], [0, 0]] [0, 0]
         [[- (1 / 1000000), 1], [0, - (1 / 1000000)]] (1 / 1000000)) = Inr None"
    by blast
  show ?thesis using nf l v by simp
qed


section \<open>Claims about symmetry and the moment estimation\<close>






section \<open>Claims about the collector\<close>

text \<open>
  Claim C7. As stated (for any finite sequence of batches whose sizes sum to the declared
  count the collector returns a matrix with that many rows) the claim fails on the empty
  sequence with the count \<open>0\<close>: the collector returns \<open>None\<close>, not a matrix with no rows.
  It fails too on a sequence with an empty batch, where the reshape of the features
  raises.
\<close>

theorem collector_empty_sequence_counterexample:
  "sum_list (map length ([] :: real list list)) = 0
   \<and> get_activations [] 0 feature_pair = Inr None
   \<and> get_activations [] 0 feature_pair \<noteq> Inr (Some (2, []))
   \<and> sum_list (map length [[1 :: real], []]) = 1
   \<and> get_activations [[1], []] 1 feature_pair = Inl ValueError_cannot_reshape"
  by (simp add: get_activations_def reshape_rows_def feature_pair_def shape_def np_empty_def
      assign_rows_def broadcast_row_def)

text \<open>
  Claim C7, amended. For a non-empty sequence of non-empty batches whose sizes sum to
  \<open>total_count\<close>, and a network that returns one feature vector of a fixed length per
  image, the collector returns a matrix with exactly \<open>total_count\<close> rows, the row of each
  image being its feature vector, in order; two such sequences that chunk the same
  images differently give the same matrix.
\<close>

theorem collector_rows_independent_of_chunking:
  assumes "well_chunked model f D total_count bs" and "well_chunked model f D total_count bs'"
    and "concat bs = concat bs'"
  shows "get_activations bs total_count model = Inr (Some (D, map (\<lambda>x. Some (f x)) (concat bs)))
         \<and> length (map (\<lambda>x. Some (f x)) (concat bs)) = total_count
         \<and> get_activations bs' total_count model = get_activations bs total_count model"
  using assms get_activations_filled [OF assms(1)] get_activations_filled [OF assms(2)]
  by (simp add: well_chunked_def length_concat)

theorem collector_rows_independent_of_chunking_witness:
  "get_activations [[1, 2, 3]] 3 feature_pair = Inr (Some (2, [Some [1, 2], Some [2, 4], Some [3, 6]]))
   \<and> get_activations [[1], [2, 3]] 3 feature_pair = get_activations [[1, 2, 3]] 3 feature_pair"
proof -
  have a: "well_chunked feature_pair (\<lambda>x. [x, 2 * x]) 2 3 [[1, 2, 3]]"
    by (simp add: well_chunked_def feature_pair_def)
  have b: "well_chunked feature_pair (\<lambda>x. [x, 2 * x]) 2 3 [[1], [2, 3]]"
    by (simp add: well_chunked_def feature_pair_def)
  show ?thesis
    using collector_rows_independent_of_chunking [OF a b] by simp
qed

text \<open>
  Claim C10. When the batch source produces no batch, the collector returns \<open>None\<close>,
  whatever the declared number of images.
\<close>

theorem collector_no_batches: "get_activations [] images model = Inr None"
  by (simp add: get_activations_def)

theorem collector_no_batches_witness: "get_activations [] 60000 feature_pair = Inr None"
  using collector_no_batches [of 60000 feature_pair] .

section \<open>Claims about the scoring entry points and the reference statistics\<close>

text \<open>
  Claim C8. As stated (the imputation path accumulates feature rows for the full
  population) the claim fails: the data loader drops the last incomplete batch. With three
  samples and a batch size of two, the score is computed from two rows.
\<close>

theorem scoring_imputer_counterexample:
  "length [1::real, 2, 3] = 3
   \<and> imputer_fid observe_features counting_noise imputer_keep feature_pair [1, 2, 3] 2 =
       Inr (2, [Some [1, 2], Some [2, 4]])"
  by (simp add: imputer_fid_def data_loader_drop_last_def Let_def get_feature_def
      reshape_rows_def imputer_keep_def feature_pair_def shape_def np_empty_def assign_rows_def
      broadcast_row_def observe_features_def)

text \<open>
  Claim C8, amended. For positive \<open>n_samples\<close> and \<open>batch_size\<close>, the generator path
  returns the score of a matrix of exactly \<open>n_samples\<close> rows: the rows of the passes in
  order, the last pass cut to fit. For a population of at least \<open>batch_size\<close> samples,
  the imputation path returns the score of the rows of the complete batches, in order:
  \<open>(N div batch_size) * batch_size\<close> rows for \<open>N\<close> samples. Neither stops early.
\<close>

theorem scoring_consumes_sample_budget:
  assumes "generator_setting noise data_generator extract f D batch_size"
    and "imputer_setting imputer extract f D"
    and "0 < batch_size" and "0 < n_samples" and "batch_size \<le> length data"
  shows "data_generator_fid fid noise data_generator extract n_samples batch_size =
           Some (Inr (fid (D, map Some (take n_samples
             (concat (map (generated_rows noise data_generator f)
                          [0..<(n_samples + batch_size - 1) div batch_size]))))))
         \<and> length (take n_samples
             (concat (map (generated_rows noise data_generator f)
                          [0..<(n_samples + batch_size - 1) div batch_size]))) = n_samples
         \<and> imputer_fid fid noise' imputer extract data batch_size =
             Inr (fid (D, map Some (concat (map (imputed_rows noise' imputer f batch_size data)
                                                [0..<length data div batch_size]))))
         \<and> length (concat (map (imputed_rows noise' imputer f batch_size data)
                                [0..<length data div batch_size])) =
             length data div batch_size * batch_size"
proof -
  have g: "length (concat (map (generated_rows noise data_generator f)
                               [0..<(n_samples + batch_size - 1) div batch_size])) =
           (n_samples + batch_size - 1) div batch_size * batch_size"
    by (rule length_concat_batches) (simp add: length_generated_rows [OF assms(1)])
  have i: "length (concat (map (imputed_rows noise' imputer f batch_size data)
                               [0..<length data div batch_size])) =
           length data div batch_size * batch_size"
    by (rule length_concat_batches) (simp add: length_imputed_rows [OF assms(2,3)])
  show ?thesis
    using batches_cover [OF assms(3), of n_samples]
    by (simp only: data_generator_fid_rows [OF assms(1,3,4)] imputer_fid_rows [OF assms(2,3,5)]
        length_take g i) simp
qed

theorem scoring_consumes_sample_budget_witness:
  "data_generator_fid observe_features counting_noise generator_keep feature_pair 3 2 =
     Some (Inr (2, [Some [0, 0], Some [1, 2], Some [2, 4]]))
   \<and> imputer_fid observe_features counting_noise imputer_keep feature_pair [1, 2, 3, 4, 5] 2 =
     Inr (2, [Some [1, 2], Some [2, 4], Some [3, 6], Some [4, 8]])"
proof -
  have up: "[0..<2] = [0, 1]" by (simp add: upt_rec)
  note inst = scoring_consumes_sample_budget [OF toy_generator_setting toy_imputer_setting,
      of 3 "[1, 2, 3, 4, 5]" observe_features counting_noise]
  then show ?thesis
    by (simp add: up generated_rows_def imputed_rows_def counting_noise_def generator_keep_def
        imputer_keep_def observe_features_def)
qed

text \<open>
  Claim C9. As stated (a persisted pair is used only if its dimensionality matches the
  current configuration, and is recomputed otherwise) the claim fails: a statistics file
  that is present is used as it is. A file of dimension one is loaded although the
  current reference statistics have dimension two.
\<close>

theorem stale_statistics_counterexample:
  "MNISTModel_init True (Some stale_stats_file) current_reference =
     Inr ((Array1 [0], Array2 [[1]]), Some stale_stats_file, False)
   \<and> fst current_reference = Array1 [0, 0]
   \<and> length [0::real] \<noteq> length [0::real, 0]"
  by (simp add: MNISTModel_init_def stale_stats_file_def current_reference_def)

text \<open>
  Claim C9, amended. When the statistics file is present and holds both arrays, they are
  loaded and used whatever their shape, and nothing is computed; a present file that
  lacks one of them raises \<open>KeyError\<close>. The statistics are computed, and saved, only when
  the file is absent; every later call then loads the saved pair.
\<close>

theorem persisted_statistics_used_unvalidated:
  "(\<forall>f m s. f ''mu'' = Some m \<and> f ''sigma'' = Some s \<longrightarrow>
       MNISTModel_init True (Some f) reference = Inr ((m, s), Some f, False))
   \<and> (\<forall>f. f ''mu'' = None \<or> f ''sigma'' = None \<longrightarrow>
       (\<exists>k. MNISTModel_init True (Some f) reference = Inl (KeyError k)))
   \<and> (\<exists>f'. MNISTModel_init True None reference = Inr (reference, Some f', True)
          \<and> (\<forall>later. MNISTModel_init True (Some f') later = Inr (reference, Some f', False)))"
proof (intro conjI allI impI)
  fix f :: npz and m s :: ndarray
  assume "f ''mu'' = Some m \<and> f ''sigma'' = Some s"
  then show "MNISTModel_init True (Some f) reference = Inr ((m, s), Some f, False)"
    by (simp add: MNISTModel_init_def)
next
  fix f :: npz assume "f ''mu'' = None \<or> f ''sigma'' = None"
  then show "\<exists>k. MNISTModel_init True (Some f) reference = Inl (KeyError k)"
    by (auto simp: MNISTModel_init_def split: option.splits)
next
  show "\<exists>f'. MNISTModel_init True None reference = Inr (reference, Some f', True)
          \<and> (\<forall>later. MNISTModel_init True (Some f') later = Inr (reference, Some f', False))"
    by (rule exI [of _ "Map.empty(''mu'' \<mapsto> fst reference, ''sigma'' \<mapsto> snd reference)"])
      (simp add: MNISTModel_init_def)
qed

theorem persisted_statistics_used_unvalidated_witness:
  "MNISTModel_init True (Some stale_stats_file) current_reference =
     Inr ((Array1 [0], Array2 [[1]]), Some stale_stats_file, False)"
proof -
  have "stale_stats_file ''mu'' = Some (Array1 [0]) \<and> stale_stats_file ''sigma'' = Some (Array2 [[1]])"
    by (simp add: stale_stats_file_def)
  then show ?thesis
    using persisted_statistics_used_unvalidated [of current_reference] by blast
qed

end
